theory Spec2Isabelle
  imports Main
begin

section \<open>The syntax tree (ast.ts)\<close>

text \<open>
  The node interfaces of \<^verbatim>\<open>ast.ts\<close>. A field of type \<^verbatim>\<open>Identifier\<close> is kept as the
  identifier's \<^verbatim>\<open>name\<close>. A \<^verbatim>\<open>NumberLiteral\<close> holds a JavaScript number; the generator
  only ever calls \<^verbatim>\<open>toString()\<close> on it, so the model keeps the number as that rendering.
  The operators are the string unions \<^verbatim>\<open>'==' | '!=' | '<' | '<=' | '>' | '>='\<close> and
  \<^verbatim>\<open>'and' | 'or'\<close>.
\<close>

datatype JSNumber = JSNumber (toString: string)

datatype ComparisonOperator = OpEq | OpNotEq | OpLess | OpLessEq | OpGreater | OpGreaterEq

datatype LogicalOperator = OpAnd | OpOr

datatype Expression =
    FunctionCall string "Expression list"
  | MethodCall Expression string "Expression list"
  | ObjectLiteral "Property list"
  | ArrayLiteral "Expression list"
  | MemberExpression Expression string
  | Identifier string
  | StringLiteral string
  | NumberLiteral JSNumber
  | BooleanLiteral bool
  | ComparisonExpression ComparisonOperator Expression Expression
  | LogicalExpression LogicalOperator Expression Expression
  | UnaryExpression Expression
and Property =
    Property (key: string) (val: "Expression option") (shorthand: bool)

datatype Statement =
    ReturnStatement Expression
  | IfStatement Expression "Statement list"
  | ForStatement string Expression "Statement list"
  | LoopStatement "Statement list"
  | Assignment string Expression
  | DestructuringAssignment "string list" Expression
  | ExpressionStatement Expression

datatype Type = Type string "Type option"

datatype TypeObject = TypeObject "(string \<times> Type) list"

record PromptImport =
  promptPath :: string
  name :: string
  input :: TypeObject
  returns :: TypeObject

record SymbolImport =
  symbols :: "string list"
  "from" :: string

datatype ImportType = prompt | symbol

record ImportStatement =
  importType :: ImportType
  promptImport :: "PromptImport option"
  symbolImport :: "SymbolImport option"

record Parameter =
  paramName :: string
  paramType :: Type

record FlowDefinition =
  flowName :: string
  parameters :: "Parameter list"
  body :: "Statement list"

datatype TopLevel = ImportNode ImportStatement | FlowNode FlowDefinition

datatype Program = Program "TopLevel list"

section \<open>The code generator (codegen.ts)\<close>

text \<open>
  What the compiler throws: the generator's \<^verbatim>\<open>Error\<close> for a flow call that leaves out a
  declared parameter (the parameter, then the flow), its \<^verbatim>\<open>Error\<close> for an unreadable
  runtime.js, the transformer's \<^verbatim>\<open>Error\<close>s with their message, and the \<^verbatim>\<open>TypeError\<close> of
  reading a field of \<^verbatim>\<open>undefined\<close>.
\<close>

datatype error =
    MissingParameter string string
  | RuntimeReadFailure
  | TransformError string
  | TypeError

definition message :: "error \<Rightarrow> string" where
  "message e =
     (case e of
        MissingParameter missing callee \<Rightarrow>
          ''Missing required parameter '' @ [CHR 0x27] @ missing @ [CHR 0x27] @
          '' in call to flow '' @ [CHR 0x27] @ callee @ [CHR 0x27]
      | RuntimeReadFailure \<Rightarrow> ''Failed to read runtime.js file''
      | TransformError m \<Rightarrow> m
      | TypeError \<Rightarrow> ''TypeError'')"

record CodeGenerator =
  importedPrompts :: "string \<rightharpoonup> PromptImport"
  importedSymbols :: "string \<rightharpoonup> string"
  definedFlows :: "string set"
  hasMainFlow :: bool
  declaredVariables :: "string set"
  flowParameters :: "string \<rightharpoonup> string list"

definition builtinFunctions :: "string set" where
  "builtinFunctions = {''print'', ''stringify'', ''parse''}"

fun join :: "string \<Rightarrow> string list \<Rightarrow> string" where
  "join sep [] = []"
| "join sep [x] = x"
| "join sep (x # y # ys) = x @ sep @ join sep (y # ys)"

fun sequence :: "(error + 'a) list \<Rightarrow> error + 'a list" where
  "sequence [] = Inr []"
| "sequence (r # rs) =
     (case r of
        Inl e \<Rightarrow> Inl e
      | Inr x \<Rightarrow> (case sequence rs of Inl e \<Rightarrow> Inl e | Inr xs \<Rightarrow> Inr (x # xs)))"

definition generateIdentifier :: "string \<Rightarrow> string" where
  "generateIdentifier n = n"

definition operatorText :: "ComparisonOperator \<Rightarrow> string" where
  "operatorText op =
     (case op of
        OpEq \<Rightarrow> ''==''
      | OpNotEq \<Rightarrow> ''!=''
      | OpLess \<Rightarrow> ''<''
      | OpLessEq \<Rightarrow> ''<=''
      | OpGreater \<Rightarrow> ''>''
      | OpGreaterEq \<Rightarrow> ''>='')"

definition singleObjectLiteral :: "Expression list \<Rightarrow> Property list option" where
  "singleObjectLiteral args =
     (case args of [ObjectLiteral props] \<Rightarrow> Some props | _ \<Rightarrow> None)"

lemma size_member_less: "p \<in> set ps \<Longrightarrow> size p < size_list size ps"
  by (induction ps) auto

lemma singleObjectLiteral_size:
  "singleObjectLiteral args = Some props \<Longrightarrow> p \<in> set props \<Longrightarrow>
     size p < size_list size args"
  using size_member_less [of p props]
  by (auto simp: singleObjectLiteral_def split: list.splits Expression.splits)

function (sequential)
    generateNode :: "CodeGenerator \<Rightarrow> Expression \<Rightarrow> error + string"
and generateFunctionCall :: "CodeGenerator \<Rightarrow> string \<Rightarrow> Expression list \<Rightarrow> error + string"
and generateMethodCall ::
      "CodeGenerator \<Rightarrow> Expression \<Rightarrow> string \<Rightarrow> Expression list \<Rightarrow> error + string"
and generateObjectLiteral :: "CodeGenerator \<Rightarrow> Property list \<Rightarrow> error + string"
and generateProperty :: "CodeGenerator \<Rightarrow> Property \<Rightarrow> error + string"
and extractProperty :: "CodeGenerator \<Rightarrow> Property \<Rightarrow> error + string"
and generateArrayLiteral :: "CodeGenerator \<Rightarrow> Expression list \<Rightarrow> error + string"
and generateMemberExpression :: "CodeGenerator \<Rightarrow> Expression \<Rightarrow> string \<Rightarrow> error + string"
and generateComparisonExpression ::
      "CodeGenerator \<Rightarrow> ComparisonOperator \<Rightarrow> Expression \<Rightarrow> Expression \<Rightarrow> error + string"
and generateLogicalExpression ::
      "CodeGenerator \<Rightarrow> LogicalOperator \<Rightarrow> Expression \<Rightarrow> Expression \<Rightarrow> error + string"
and generateUnaryExpression :: "CodeGenerator \<Rightarrow> Expression \<Rightarrow> error + string"
where
  "generateNode g (FunctionCall callee args) = generateFunctionCall g callee args"
| "generateNode g (MethodCall obj method args) = generateMethodCall g obj method args"
| "generateNode g (ObjectLiteral props) = generateObjectLiteral g props"
| "generateNode g (ArrayLiteral elems) = generateArrayLiteral g elems"
| "generateNode g (MemberExpression obj prop) = generateMemberExpression g obj prop"
| "generateNode g (Identifier n) = Inr (generateIdentifier n)"
| "generateNode g (StringLiteral v) = Inr ([CHR 0x22] @ v @ [CHR 0x22])"
| "generateNode g (NumberLiteral v) = Inr (toString v)"
| "generateNode g (BooleanLiteral v) = Inr (if v then ''true'' else ''false'')"
| "generateNode g (ComparisonExpression op l r) = generateComparisonExpression g op l r"
| "generateNode g (LogicalExpression op l r) = generateLogicalExpression g op l r"
| "generateNode g (UnaryExpression a) = generateUnaryExpression g a"
| "generateFunctionCall g callee args =
     (if callee \<in> dom (importedPrompts g) then
        (case args of
           [] \<Rightarrow> Inr (''await '' @ callee @ ''({})'')
         | a # _ \<Rightarrow>
             (case generateNode g a of
                Inl e \<Rightarrow> Inl e
              | Inr s \<Rightarrow> Inr (''await '' @ callee @ ''('' @ s @ '')'')))
      else if callee \<in> definedFlows g then
        (if args = [] then Inr (''await '' @ callee @ ''()'')
         else (case singleObjectLiteral args of
           Some props \<Rightarrow>
             (let paramNames = (case flowParameters g callee of None \<Rightarrow> [] | Some ps \<Rightarrow> ps);
                  propsMap = map_of (rev (map (\<lambda>p. (key p, extractProperty g p)) props))
              in case sequence (map (\<lambda>paramName.
                         case propsMap paramName of
                           None \<Rightarrow> Inl (MissingParameter paramName callee)
                         | Some r \<Rightarrow> r) paramNames) of
                   Inl e \<Rightarrow> Inl e
                 | Inr extractedArgs \<Rightarrow>
                     Inr (''await '' @ callee @ ''('' @ join '', '' extractedArgs @ '')''))
         | None \<Rightarrow>
             (case sequence (map (generateNode g) args) of
                Inl e \<Rightarrow> Inl e
              | Inr ss \<Rightarrow> Inr (''await '' @ callee @ ''('' @ join '', '' ss @ '')''))))
      else if callee \<in> builtinFunctions then
        (case sequence (map (generateNode g) args) of
           Inl e \<Rightarrow> Inl e
         | Inr ss \<Rightarrow> Inr (''_builtins.'' @ callee @ ''('' @ join '', '' ss @ '')''))
      else
        (case sequence (map (generateNode g) args) of
           Inl e \<Rightarrow> Inl e
         | Inr ss \<Rightarrow> Inr (callee @ ''('' @ join '', '' ss @ '')'')))"
| "generateMethodCall g obj method args =
     (case generateNode g obj of
        Inl e \<Rightarrow> Inl e
      | Inr object \<Rightarrow>
          (case sequence (map (generateNode g) args) of
             Inl e \<Rightarrow> Inl e
           | Inr ss \<Rightarrow>
               Inr (object @ ''.'' @ generateIdentifier method @ ''('' @ join '', '' ss @ '')'')))"
| "generateObjectLiteral g props =
     (if length props = 0 then Inr ''{}''
      else (case sequence (map (generateProperty g) props) of
              Inl e \<Rightarrow> Inl e
            | Inr ps \<Rightarrow> Inr (''{ '' @ join '', '' ps @ '' }'')))"
| "generateProperty g (Property k v sh) =
     (if sh then Inr (generateIdentifier k)
      else (case v of
              None \<Rightarrow> Inl TypeError
            | Some e \<Rightarrow>
                (case generateNode g e of
                   Inl err \<Rightarrow> Inl err
                 | Inr s \<Rightarrow> Inr (generateIdentifier k @ '': '' @ s))))"
| "extractProperty g (Property k v sh) =
     (case v of
        None \<Rightarrow> Inr (generateIdentifier k)
      | Some e \<Rightarrow> generateNode g e)"
| "generateArrayLiteral g elems =
     (if length elems = 0 then Inr ''[]''
      else (case sequence (map (generateNode g) elems) of
              Inl e \<Rightarrow> Inl e
            | Inr ss \<Rightarrow> Inr (''['' @ join '', '' ss @ '']'')))"
| "generateMemberExpression g obj prop =
     (case generateNode g obj of
        Inl e \<Rightarrow> Inl e
      | Inr object \<Rightarrow> Inr (object @ ''.'' @ generateIdentifier prop))"
| "generateComparisonExpression g op l r =
     (case generateNode g l of
        Inl e \<Rightarrow> Inl e
      | Inr left \<Rightarrow>
          (case generateNode g r of
             Inl e \<Rightarrow> Inl e
           | Inr right \<Rightarrow> Inr (left @ '' '' @ operatorText op @ '' '' @ right)))"
| "generateLogicalExpression g op l r =
     (case generateNode g l of
        Inl e \<Rightarrow> Inl e
      | Inr left \<Rightarrow>
          (case generateNode g r of
             Inl e \<Rightarrow> Inl e
           | Inr right \<Rightarrow>
               Inr (left @ '' '' @ (if op = OpAnd then ''&&'' else ''||'') @ '' '' @ right)))"
| "generateUnaryExpression g a =
     (case generateNode g a of
        Inl e \<Rightarrow> Inl e
      | Inr argument \<Rightarrow> Inr (''!'' @ argument))"
  by pat_completeness auto

termination
  by (relation "measure (\<lambda>x. case x of
          Inl (Inl (Inl (g, e))) \<Rightarrow> 2 * size e
        | Inl (Inl (Inr (g, callee, args))) \<Rightarrow> 2 * size_list size args + 1
        | Inl (Inr (Inl (g, obj, method, args))) \<Rightarrow> 2 * (size obj + size_list size args) + 1
        | Inl (Inr (Inr (Inl (g, props)))) \<Rightarrow> 2 * size_list size props + 1
        | Inl (Inr (Inr (Inr (g, p)))) \<Rightarrow> 2 * size p
        | Inr (Inl (Inl (g, p))) \<Rightarrow> 2 * size p
        | Inr (Inl (Inr (Inl (g, elems)))) \<Rightarrow> 2 * size_list size elems + 1
        | Inr (Inl (Inr (Inr (g, obj, prop)))) \<Rightarrow> 2 * size obj + 1
        | Inr (Inr (Inl (g, op, l, r))) \<Rightarrow> 2 * (size l + size r) + 1
        | Inr (Inr (Inr (Inl (g, op, l, r)))) \<Rightarrow> 2 * (size l + size r) + 1
        | Inr (Inr (Inr (Inr (g, a)))) \<Rightarrow> 2 * size a + 1)")
     (auto dest: size_member_less singleObjectLiteral_size)

definition isAsyncCall :: "CodeGenerator \<Rightarrow> Expression \<Rightarrow> bool" where
  "isAsyncCall g expr =
     (case expr of
        FunctionCall callee args \<Rightarrow>
          callee \<in> dom (importedPrompts g) \<or> callee \<in> definedFlows g
      | _ \<Rightarrow> False)"

definition generateAsyncCall :: "CodeGenerator \<Rightarrow> Expression \<Rightarrow> error + string" where
  "generateAsyncCall g expr =
   (case expr of
      FunctionCall callee args \<Rightarrow>
     (if callee \<in> dom (importedPrompts g) then
        (case args of
           [] \<Rightarrow> Inr (''await '' @ callee @ ''({})'')
         | a # _ \<Rightarrow>
             (case generateNode g a of
                Inl e \<Rightarrow> Inl e
              | Inr s \<Rightarrow> Inr (''await '' @ callee @ ''('' @ s @ '')'')))
      else if callee \<in> definedFlows g then
        (if args = [] then Inr (''await '' @ callee @ ''()'')
         else (case singleObjectLiteral args of
           Some props \<Rightarrow>
             (let paramNames = (case flowParameters g callee of None \<Rightarrow> [] | Some ps \<Rightarrow> ps);
                  propsMap = map_of (rev (map (\<lambda>p. (key p, extractProperty g p)) props))
              in case sequence (map (\<lambda>paramName.
                         case propsMap paramName of
                           None \<Rightarrow> Inl (MissingParameter paramName callee)
                         | Some r \<Rightarrow> r) paramNames) of
                   Inl e \<Rightarrow> Inl e
                 | Inr extractedArgs \<Rightarrow>
                     Inr (''await '' @ callee @ ''('' @ join '', '' extractedArgs @ '')''))
         | None \<Rightarrow>
             (case sequence (map (generateNode g) args) of
                Inl e \<Rightarrow> Inl e
              | Inr ss \<Rightarrow> Inr (''await '' @ callee @ ''('' @ join '', '' ss @ '')''))))
      else
        (case sequence (map (generateNode g) args) of
           Inl e \<Rightarrow> Inl e
         | Inr ss \<Rightarrow> Inr (''await '' @ callee @ ''('' @ join '', '' ss @ '')'')))
    | _ \<Rightarrow> Inl TypeError)"

definition indent :: "nat \<Rightarrow> string" where
  "indent level = concat (replicate level ''  '')"

definition generateReturnStatement :: "CodeGenerator \<Rightarrow> Expression \<Rightarrow> error + string" where
  "generateReturnStatement g expr =
     (if isAsyncCall g expr then
        (case generateAsyncCall g expr of
           Inl e \<Rightarrow> Inl e
         | Inr s \<Rightarrow> Inr (''return '' @ s))
      else
        (case generateNode g expr of
           Inl e \<Rightarrow> Inl e
         | Inr s \<Rightarrow> Inr (''return '' @ s)))"

definition generateAssignment ::
  "CodeGenerator \<Rightarrow> string \<Rightarrow> Expression \<Rightarrow> error + string \<times> CodeGenerator" where
  "generateAssignment g leftIdent right =
     (let left = generateIdentifier leftIdent
      in case (if isAsyncCall g right then generateAsyncCall g right
               else generateNode g right) of
           Inl e \<Rightarrow> Inl e
         | Inr rightCode \<Rightarrow>
             (if leftIdent \<notin> declaredVariables g then
                Inr (''let '' @ left @ '' = '' @ rightCode,
                     g\<lparr>declaredVariables := insert leftIdent (declaredVariables g)\<rparr>)
              else Inr (left @ '' = '' @ rightCode, g)))"

definition generateDestructuringAssignment ::
  "CodeGenerator \<Rightarrow> string list \<Rightarrow> Expression \<Rightarrow> error + string \<times> CodeGenerator" where
  "generateDestructuringAssignment g identifiers right =
     (case (if isAsyncCall g right then generateAsyncCall g right
            else generateNode g right) of
        Inl e \<Rightarrow> Inl e
      | Inr rightCode \<Rightarrow>
          (let g' = g\<lparr>declaredVariables := declaredVariables g \<union> set identifiers\<rparr>;
               left = join '', '' (map generateIdentifier identifiers)
           in Inr (''const { '' @ left @ '' } = '' @ rightCode, g')))"

definition generateExpressionStatement :: "CodeGenerator \<Rightarrow> Expression \<Rightarrow> error + string" where
  "generateExpressionStatement g expression =
     (if isAsyncCall g expression then generateAsyncCall g expression
      else generateNode g expression)"

function (sequential) generateStatement :: "CodeGenerator \<Rightarrow> Statement \<Rightarrow> error + string \<times> CodeGenerator"
and generateIfStatement ::
      "CodeGenerator \<Rightarrow> Expression \<Rightarrow> Statement list \<Rightarrow> error + string \<times> CodeGenerator"
and generateForStatement ::
      "CodeGenerator \<Rightarrow> string \<Rightarrow> Expression \<Rightarrow> Statement list \<Rightarrow> error + string \<times> CodeGenerator"
and generateLoopStatement ::
      "CodeGenerator \<Rightarrow> Statement list \<Rightarrow> error + string \<times> CodeGenerator"
and generateStatements ::
      "nat \<Rightarrow> CodeGenerator \<Rightarrow> Statement list \<Rightarrow> error + string \<times> CodeGenerator"
where
  "generateStatement g (ReturnStatement expr) =
     (case generateReturnStatement g expr of Inl e \<Rightarrow> Inl e | Inr s \<Rightarrow> Inr (s, g))"
| "generateStatement g (IfStatement cond stmts) = generateIfStatement g cond stmts"
| "generateStatement g (ForStatement v iterable stmts) = generateForStatement g v iterable stmts"
| "generateStatement g (LoopStatement stmts) = generateLoopStatement g stmts"
| "generateStatement g (Assignment l r) = generateAssignment g l r"
| "generateStatement g (DestructuringAssignment ids r) = generateDestructuringAssignment g ids r"
| "generateStatement g (ExpressionStatement expr) =
     (case generateExpressionStatement g expr of Inl e \<Rightarrow> Inl e | Inr s \<Rightarrow> Inr (s, g))"
| "generateIfStatement g cond stmts =
     (case generateNode g cond of
        Inl e \<Rightarrow> Inl e
      | Inr c \<Rightarrow>
          (case generateStatements 1 g stmts of
             Inl e \<Rightarrow> Inl e
           | Inr (code, g') \<Rightarrow> Inr (''if ('' @ c @ '') {'' @ code @ ''\<newline>}'', g')))"
| "generateForStatement g v iterable stmts =
     (let variable = generateIdentifier v
      in case generateNode g iterable of
           Inl e \<Rightarrow> Inl e
         | Inr it \<Rightarrow>
             (case generateStatements 1 g stmts of
                Inl e \<Rightarrow> Inl e
              | Inr (code, g') \<Rightarrow>
                  Inr (''for (const '' @ variable @ '' of '' @ it @ '') {'' @ code @ ''\<newline>}'', g')))"
| "generateLoopStatement g stmts =
     (case generateStatements 1 g stmts of
        Inl e \<Rightarrow> Inl e
      | Inr (code, g') \<Rightarrow> Inr (''while (true) {'' @ code @ ''\<newline>}'', g'))"
| "generateStatements level g [] = Inr ([], g)"
| "generateStatements level g (stmt # rest) =
     (case generateStatement g stmt of
        Inl e \<Rightarrow> Inl e
      | Inr (stmtCode, g') \<Rightarrow>
          (case generateStatements level g' rest of
             Inl e \<Rightarrow> Inl e
           | Inr (code, g'') \<Rightarrow>
               Inr (''\<newline>'' @ indent level @ stmtCode @ '';'' @ code, g'')))"
  by pat_completeness auto

termination
  by (relation "measure (\<lambda>x. case x of
          Inl (Inl (g, s)) \<Rightarrow> 2 * size s
        | Inl (Inr (g, c, stmts)) \<Rightarrow> 2 * size_list size stmts + 1
        | Inr (Inl (g, v, it, stmts)) \<Rightarrow> 2 * size_list size stmts + 1
        | Inr (Inr (Inl (g, stmts))) \<Rightarrow> 2 * size_list size stmts + 1
        | Inr (Inr (Inr (l, g, stmts))) \<Rightarrow> 2 * size_list size stmts)")
     auto

text \<open>
  \<^verbatim>\<open>JSON.stringify\<close> of the schema nodes, as \<^verbatim>\<open>generatePromptImport\<close> embeds them. The
  keys come out in the order the transformer wrote them; an absent \<^verbatim>\<open>genericType\<close> is
  left out. Names are identifier tokens; of the JSON escapes only those of the quote and
  the backslash are written out.
\<close>

definition jsonString :: "string \<Rightarrow> string" where
  "jsonString s =
     [CHR 0x22] @
     concat (map (\<lambda>c. if c = CHR 0x22 then [CHR 0x5C, CHR 0x22]
                       else if c = CHR 0x5C then [CHR 0x5C, CHR 0x5C]
                       else [c]) s) @
     [CHR 0x22]"

definition jsonIdentifier :: "string \<Rightarrow> string" where
  \<open>jsonIdentifier n = ''{"type":"Identifier","name":'' @ jsonString n @ ''}''\<close>

fun jsonType :: "Type \<Rightarrow> string" where
  \<open>jsonType (Type n None) = ''{"type":"Type","name":'' @ jsonIdentifier n @ ''}''\<close>
| \<open>jsonType (Type n (Some t)) =
     ''{"type":"Type","name":'' @ jsonIdentifier n @ '',"genericType":'' @ jsonType t @ ''}''\<close>

definition jsonTypeObject :: "TypeObject \<Rightarrow> string" where
  \<open>jsonTypeObject t =
     (case t of TypeObject props \<Rightarrow>
        ''{"type":"TypeObject","properties":['' @
        join '','' (map (\<lambda>(k, v). ''{"key":'' @ jsonIdentifier k @ '',"value":'' @ jsonType v @ ''}'')
                     props) @
        '']}'')\<close>

definition generatePromptImport :: "CodeGenerator \<Rightarrow> PromptImport \<Rightarrow> string \<times> CodeGenerator" where
  \<open>generatePromptImport g p =
     (let g' = g\<lparr>importedPrompts := (importedPrompts g)(name p \<mapsto> p)\<rparr>;
          promptName = name p;
          path = promptPath p;
          inputType = jsonTypeObject (input p);
          returnType = jsonTypeObject (returns p)
      in (''// Prompt import: '' @ promptName @ '' from '' @ path @ ''\<newline>'' @
          ''const '' @ promptName @ '' = async function(input) {\<newline>'' @
          ''  // Validate input against expected type\<newline>'' @
          ''  const validatedInput = _promptRuntime.validateType(input, '' @ inputType @ '');\<newline>'' @
          ''  \<newline>'' @
          ''  // Call the prompt with validated input\<newline>'' @
          ''  return await _promptRuntime.callPrompt("'' @ promptName @ ''", "'' @ path @
            ''", validatedInput, '' @ returnType @ '');\<newline>'' @
          ''};\<newline>'' @
          ''_promptRegistry["'' @ promptName @ ''"] = {\<newline>'' @
          ''  path: "'' @ path @ ''",\<newline>'' @
          ''  inputType: '' @ inputType @ '',\<newline>'' @
          ''  returnType: '' @ returnType @ ''\<newline>'' @
          ''};'', g'))\<close>

definition generateSymbolImport :: "CodeGenerator \<Rightarrow> SymbolImport \<Rightarrow> string \<times> CodeGenerator" where
  \<open>generateSymbolImport g s =
     (let g' = g\<lparr>importedSymbols :=
                   fold (\<lambda>sym m. m(sym \<mapsto> from s)) (symbols s) (importedSymbols g)\<rparr>;
          syms = join '', '' (symbols s)
      in (''import { '' @ syms @ '' } from "'' @ from s @ ''";'', g'))\<close>

definition generateImportStatement ::
  "CodeGenerator \<Rightarrow> ImportStatement \<Rightarrow> string \<times> CodeGenerator" where
  "generateImportStatement g importStmt =
     (if importType importStmt = prompt \<and> promptImport importStmt \<noteq> None then
        generatePromptImport g (the (promptImport importStmt))
      else if importType importStmt = symbol \<and> symbolImport importStmt \<noteq> None then
        generateSymbolImport g (the (symbolImport importStmt))
      else ([], g))"

definition generateFlowDefinition ::
  "CodeGenerator \<Rightarrow> FlowDefinition \<Rightarrow> error + string \<times> CodeGenerator" where
  \<open>generateFlowDefinition g flow =
     (let g1 = g\<lparr>declaredVariables := {}\<rparr>;
          g2 = g1\<lparr>declaredVariables :=
                    declaredVariables g1 \<union> set (map paramName (parameters flow))\<rparr>;
          fname = flowName flow;
          params = join '', '' (map paramName (parameters flow));
          g3 = g2\<lparr>definedFlows := insert fname (definedFlows g2)\<rparr>;
          g4 = (if fname = ''Main'' then g3\<lparr>hasMainFlow := True\<rparr> else g3);
          code = ''// Flow: '' @ fname @ ''\<newline>'' @
                 ''async function '' @ fname @ ''('' @ params @ '') {\<newline>'' @
                 indent 1 @ ''try {''
      in case generateStatements 2 g4 (body flow) of
           Inl e \<Rightarrow> Inl e
         | Inr (stmts, g5) \<Rightarrow>
             Inr (code @ stmts @
                  ''\<newline>'' @ indent 1 @ ''} catch (error) {\<newline>'' @
                  indent 2 @ ''console.error(`Error in flow '' @ fname @
                    '': ${error.message}`);\<newline>'' @
                  indent 2 @ ''throw error;\<newline>'' @
                  indent 1 @ ''}\<newline>'' @
                  ''}'', g5))\<close>

definition generateTopLevel :: "CodeGenerator \<Rightarrow> TopLevel \<Rightarrow> error + string \<times> CodeGenerator" where
  "generateTopLevel g node =
     (case node of
        ImportNode i \<Rightarrow> Inr (generateImportStatement g i)
      | FlowNode f \<Rightarrow> generateFlowDefinition g f)"

fun generateNodes :: "CodeGenerator \<Rightarrow> TopLevel list \<Rightarrow> error + string \<times> CodeGenerator" where
  "generateNodes g [] = Inr ([], g)"
| "generateNodes g (node # rest) =
     (case generateTopLevel g node of
        Inl e \<Rightarrow> Inl e
      | Inr (c, g') \<Rightarrow>
          (case generateNodes g' rest of
             Inl e \<Rightarrow> Inl e
           | Inr (code, g'') \<Rightarrow> Inr (c @ ''\<newline>\<newline>'' @ code, g'')))"

definition generateProgram :: "CodeGenerator \<Rightarrow> Program \<Rightarrow> error + string \<times> CodeGenerator" where
  "generateProgram g program = (case program of Program nodes \<Rightarrow> generateNodes g nodes)"

fun collectFlows :: "CodeGenerator \<Rightarrow> TopLevel list \<Rightarrow> CodeGenerator" where
  "collectFlows g [] = g"
| "collectFlows g (ImportNode i # rest) = collectFlows g rest"
| "collectFlows g (FlowNode flow # rest) =
     collectFlows
       (g\<lparr>definedFlows := insert (flowName flow) (definedFlows g),
          flowParameters := (flowParameters g)(flowName flow \<mapsto> map paramName (parameters flow))\<rparr>)
       rest"

definition collectDefinedFlows :: "CodeGenerator \<Rightarrow> Program \<Rightarrow> CodeGenerator" where
  "collectDefinedFlows g ast = (case ast of Program nodes \<Rightarrow> collectFlows g nodes)"

definition mainEpilogue :: string where
  \<open>mainEpilogue =
     ''\<newline>'' @
     ''// Auto-execute Main flow\<newline>'' @
     ''(async () => {\<newline>'' @
     ''  try {\<newline>'' @
     ''    console.log("Starting Main flow execution...");\<newline>'' @
     ''    await Main();\<newline>'' @
     ''    console.log("Main flow execution completed successfully.");\<newline>'' @
     ''  } catch (error) {\<newline>'' @
     ''    console.error("Main flow execution failed:", error);\<newline>'' @
     ''    process.exit(1);\<newline>'' @
     ''  }\<newline>'' @
     ''})();\<newline>''\<close>

text \<open>
  \<^verbatim>\<open>generate\<close>. The first argument is the content of runtime.js as \<^verbatim>\<open>readFileSync\<close>
  returns it, \<open>None\<close> when the read throws. The result carries the instance's state
  after the call, so that a second call on the same instance can be modelled.
\<close>

definition generate ::
  "string option \<Rightarrow> CodeGenerator \<Rightarrow> Program \<Rightarrow> error + string \<times> CodeGenerator" where
  "generate runtimeFile g ast =
     (let g1 = g\<lparr>hasMainFlow := False, importedPrompts := Map.empty,
                  importedSymbols := Map.empty, declaredVariables := {}, definedFlows := {}\<rparr>;
          g2 = collectDefinedFlows g1 ast
      in case runtimeFile of
           None \<Rightarrow> Inl RuntimeReadFailure
         | Some runtimeCode \<Rightarrow>
             (case generateProgram g2 ast of
                Inl e \<Rightarrow> Inl e
              | Inr (code, g3) \<Rightarrow>
                  Inr (runtimeCode @ code @ (if hasMainFlow g3 then mainEpilogue else []), g3)))"

section \<open>The parser (parser.ts)\<close>

text \<open>
  The token types \<^verbatim>\<open>parser.ts\<close> imports from the lexer, and the end-of-input token that
  the parser's \<^verbatim>\<open>LA\<close> returns past the last token. A name that is also a node type of
  \<^verbatim>\<open>ast.ts\<close> or a constant of HOL carries the suffix \<open>_tok\<close>.
\<close>

datatype TokenType =
    Import | Prompt | As | With | Input | Returns | Flow | Return | If_tok | For | In | Loop
  | And_tok | Or_tok | Not_tok | LCurly | RCurly | LParen | RParen | LBracket | RBracket
  | Colon | Comma | Equals | Dot | LessThan | GreaterThan
  | StringLiteral_tok | Identifier_tok | NumberLiteral_tok | BooleanLiteral_tok
  | DoubleEquals | NotEquals | LessThanEquals | GreaterThanEquals | EOF

record Token =
  tokenType :: TokenType
  image :: string






text \<open>
  The parse tree. A node's \<^verbatim>\<open>children\<close> holds, under the name of each sub-rule and
  token type, the nodes and tokens that rule consumed, in the order met; a key that met
  nothing is absent, which the transformer reads as an empty list. The rule \<^verbatim>\<open>script\<close>
  is a repetition of \<^verbatim>\<open>importStatement | flowDefinition\<close>, the rule \<^verbatim>\<open>logicalExpression\<close> a
  \<^verbatim>\<open>notExpression\<close> followed by a repetition of \<^verbatim>\<open>And notExpression | Or notExpression\<close>.
  The nodes of the sub-rules stay abstract (\<open>'i\<close>, \<open>'f\<close>, \<open>'n\<close>).
\<close>

datatype ('i, 'f) Declaration = ImportDeclaration 'i | FlowDeclaration 'f

record ('i, 'f) ScriptChildren =
  importStatement :: "'i list"
  flowDefinition :: "'f list"

definition script :: "('i, 'f) Declaration list \<Rightarrow> ('i, 'f) ScriptChildren" where
  "script declarations =
     \<lparr>importStatement = concat (map (\<lambda>d. case d of ImportDeclaration i \<Rightarrow> [i] | _ \<Rightarrow> []) declarations),
      flowDefinition = concat (map (\<lambda>d. case d of FlowDeclaration f \<Rightarrow> [f] | _ \<Rightarrow> []) declarations)\<rparr>"

record 'n LogicalChildren =
  notExpression :: "'n list"
  And :: "Token list"
  Or :: "Token list"

definition logicalExpression :: "'n \<Rightarrow> (Token \<times> 'n) list \<Rightarrow> 'n LogicalChildren" where
  "logicalExpression first rest =
     \<lparr>notExpression = first # map snd rest,
      And = filter (\<lambda>t. tokenType t = And_tok) (map fst rest),
      Or = filter (\<lambda>t. tokenType t = Or_tok) (map fst rest)\<rparr>"

section \<open>The transformer (ast.ts)\<close>

text \<open>
  \<^verbatim>\<open>transform\<close> and \<^verbatim>\<open>transformLogicalExpression\<close>. The transformers of the child nodes
  are arguments, so what is proved holds for the ones of \<^verbatim>\<open>ast.ts\<close>; a child
  transformer that throws ends the whole transformation.
\<close>

definition transform ::
  "('i \<Rightarrow> error + ImportStatement) \<Rightarrow> ('f \<Rightarrow> error + FlowDefinition) \<Rightarrow>
   ('i, 'f) ScriptChildren \<Rightarrow> error + Program" where
  "transform transformImportStatement transformFlowDefinition children =
     (case sequence (map transformImportStatement (importStatement children)) of
        Inl e \<Rightarrow> Inl e
      | Inr imports \<Rightarrow>
          (case sequence (map transformFlowDefinition (flowDefinition children)) of
             Inl e \<Rightarrow> Inl e
           | Inr flows \<Rightarrow> Inr (Program (map ImportNode imports @ map FlowNode flows))))"

function logicalLoop ::
  "('n \<Rightarrow> error + Expression) \<Rightarrow> 'n LogicalChildren \<Rightarrow> nat \<Rightarrow> Expression \<Rightarrow> error + Expression"
where
  "logicalLoop transformNotExpression children i expr =
     (if i < length (And children) + length (Or children) then
        (let isAnd = i < length (And children);
             operator = (if isAnd then OpAnd else OpOr)
         in if i + 1 < length (notExpression children) then
              (case transformNotExpression (notExpression children ! (i + 1)) of
                 Inl e \<Rightarrow> Inl e
               | Inr rightExpr \<Rightarrow>
                   logicalLoop transformNotExpression children (i + 1)
                     (LogicalExpression operator expr rightExpr))
            else Inl TypeError)
      else Inr expr)"
  by pat_completeness auto

termination
  by (relation "measure (\<lambda>(t, children, i, expr).
        length (And children) + length (Or children) - i)") auto

definition transformLogicalExpression ::
  "('n \<Rightarrow> error + Expression) \<Rightarrow> 'n LogicalChildren \<Rightarrow> error + Expression" where
  "transformLogicalExpression transformNotExpression children =
     (case notExpression children of
        [] \<Rightarrow> Inl TypeError
      | first # _ \<Rightarrow>
          (case transformNotExpression first of
             Inl e \<Rightarrow> Inl e
           | Inr expr \<Rightarrow> logicalLoop transformNotExpression children 0 expr))"

section \<open>Reference points for the properties\<close>

text \<open>The state of a \<^verbatim>\<open>new CodeGenerator()\<close>: the field initialisers of the class.\<close>

definition newCodeGenerator :: CodeGenerator where
  "newCodeGenerator =
     \<lparr>importedPrompts = Map.empty, importedSymbols = Map.empty, definedFlows = {},
      hasMainFlow = False, declaredVariables = {}, flowParameters = Map.empty\<rparr>"

text \<open>
  The property a call site's \<^verbatim>\<open>propsMap\<close> holds for a key: \<^verbatim>\<open>Map.set\<close> overwrites, so it
  is the last property written with that key. \<open>argumentFor\<close> is the text of its value, or
  the key itself when the property has no value (a shorthand property).
\<close>

definition propertyFor :: "Property list \<Rightarrow> string \<Rightarrow> Property option" where
  "propertyFor props k = find (\<lambda>p. key p = k) (rev props)"

definition argumentFor :: "CodeGenerator \<Rightarrow> Property list \<Rightarrow> string \<Rightarrow> error + string" where
  "argumentFor g props k =
     (case propertyFor props k of
        None \<Rightarrow> Inl (MissingParameter k [])
      | Some p \<Rightarrow> (case val p of None \<Rightarrow> Inr k | Some e \<Rightarrow> generateNode g e))"

text \<open>Example declarations: the flow \<^verbatim>\<open>flow F(x: number, y: string) { }\<close> and a prompt import
  \<^verbatim>\<open>import prompt "p.njk" as P with input { a: number } returns { b: string }\<close>.\<close>

definition flowF :: FlowDefinition where
  "flowF =
     \<lparr>flowName = ''F'',
      parameters = [\<lparr>paramName = ''x'', paramType = Type ''number'' None\<rparr>,
                    \<lparr>paramName = ''y'', paramType = Type ''string'' None\<rparr>],
      body = []\<rparr>"

definition promptNamed :: "string \<Rightarrow> ImportStatement" where
  "promptNamed n =
     \<lparr>importType = prompt,
      promptImport = Some \<lparr>promptPath = ''p.njk'', name = n,
                            input = TypeObject [(''a'', Type ''number'' None)],
                            returns = TypeObject [(''b'', Type ''string'' None)]\<rparr>,
      symbolImport = None\<rparr>"

text \<open>The generator's state once it has met the prompt import \<^verbatim>\<open>P\<close> and the flow \<^verbatim>\<open>F\<close>,
  and the state when the prompt import is itself named \<^verbatim>\<open>F\<close>.\<close>

definition registryPF :: CodeGenerator where
  "registryPF =
     snd (generateImportStatement
            (collectDefinedFlows newCodeGenerator
               (Program [ImportNode (promptNamed ''P''), FlowNode flowF]))
            (promptNamed ''P''))"

definition registryFF :: CodeGenerator where
  "registryFF =
     snd (generateImportStatement
            (collectDefinedFlows newCodeGenerator
               (Program [ImportNode (promptNamed ''F''), FlowNode flowF]))
            (promptNamed ''F''))"

text \<open>
  Example programs. \<open>programMissing\<close> is
  \<^verbatim>\<open>flow F(x: number, y: string) { }  flow Main() { F({ x: 5 }) }\<close>;
  \<open>programDiscarded\<close> is
  \<^verbatim>\<open>import prompt "p.njk" as P ...  flow F(x: number, y: string) { }
  flow Main() { P({ a: 1 }, F({ x: 5 })) }\<close>.
\<close>

definition callF_x5 :: Expression where
  "callF_x5 =
     FunctionCall ''F''
       [ObjectLiteral [Property ''x'' (Some (NumberLiteral (JSNumber ''5''))) False]]"

definition programMissing :: Program where
  "programMissing =
     Program [FlowNode flowF,
              FlowNode \<lparr>flowName = ''Main'', parameters = [],
                        body = [ExpressionStatement callF_x5]\<rparr>]"






definition awaited :: "string \<Rightarrow> bool" where
  "awaited s = (take 6 s = ''await '')"






section \<open>Properties of call generation\<close>

declare generateFunctionCall.simps [simp del]

lemma registryPF_simps:
  "dom (importedPrompts registryPF) = {''P''}"
  "definedFlows registryPF = {''F''}"
  "flowParameters registryPF ''F'' = Some [''x'', ''y'']"
  by (simp_all add: registryPF_def generateImportStatement_def generatePromptImport_def
        collectDefinedFlows_def newCodeGenerator_def promptNamed_def flowF_def Let_def)

lemma registryFF_simps:
  "dom (importedPrompts registryFF) = {''F''}"
  "definedFlows registryFF = {''F''}"
  "flowParameters registryFF ''F'' = Some [''x'', ''y'']"
  by (simp_all add: registryFF_def generateImportStatement_def generatePromptImport_def
        collectDefinedFlows_def newCodeGenerator_def promptNamed_def flowF_def Let_def)

lemma map_of_propertyFor:
  "map_of (rev (map (\<lambda>p. (key p, f p)) props)) k = map_option f (propertyFor props k)"
  unfolding propertyFor_def
  by (induction props rule: rev_induct) auto

lemma propertyFor_Some:
  "k \<in> key ` set props \<Longrightarrow> \<exists>p. propertyFor props k = Some p \<and> p \<in> set props \<and> key p = k"
  unfolding propertyFor_def
  by (induction props rule: rev_induct) auto

lemma propertyFor_None:
  "k \<notin> key ` set props \<Longrightarrow> propertyFor props k = None"
  unfolding propertyFor_def
  by (induction props rule: rev_induct) auto

lemma propertyFor_distinct:
  "distinct (map key props) \<Longrightarrow> p \<in> set props \<Longrightarrow> propertyFor props (key p) = Some p"
  unfolding propertyFor_def
  by (induction props rule: rev_induct) (auto simp: image_iff)

lemma propertyFor_same_set:
  assumes "distinct (map key props)" "distinct (map key props')" "set props' = set props"
  shows "propertyFor props' k = propertyFor props k"
proof (cases "k \<in> key ` set props")
  case True
  then obtain p where p: "p \<in> set props" "key p = k" by auto
  from p assms show ?thesis
    using propertyFor_distinct [of props p] propertyFor_distinct [of props' p] by simp
next
  case False
  with assms show ?thesis by (simp add: propertyFor_None)
qed

lemma singleObjectLiteral_single [simp]:
  "singleObjectLiteral [ObjectLiteral props] = Some props"
  by (simp add: singleObjectLiteral_def)

lemma extractProperty_val:
  "extractProperty g p = (case val p of None \<Rightarrow> Inr (key p) | Some e \<Rightarrow> generateNode g e)"
  by (cases p) (simp add: generateIdentifier_def split: option.splits)

lemma flow_call_result:
  assumes "callee \<notin> dom (importedPrompts g)" "callee \<in> definedFlows g"
    and "flowParameters g callee = Some ps"
  shows "generateFunctionCall g callee [ObjectLiteral props] =
           (case sequence (map (\<lambda>k. case propertyFor props k of
                                      None \<Rightarrow> Inl (MissingParameter k callee)
                                    | Some p \<Rightarrow> extractProperty g p) ps) of
              Inl e \<Rightarrow> Inl e
            | Inr vs \<Rightarrow> Inr (''await '' @ callee @ ''('' @ join '', '' vs @ '')''))"
proof -
  have eq: "(\<lambda>k. case map_of (rev (map (\<lambda>p. (key p, extractProperty g p)) props)) k of
                    None \<Rightarrow> Inl (MissingParameter k callee) | Some r \<Rightarrow> r) =
            (\<lambda>k. case propertyFor props k of
                    None \<Rightarrow> Inl (MissingParameter k callee)
                  | Some p \<Rightarrow> extractProperty g p)"
    by (rule ext) (simp add: map_of_propertyFor split: option.splits)
  show ?thesis
    using assms by (simp add: generateFunctionCall.simps eq)
qed

lemma async_call_same:
  "callee \<in> dom (importedPrompts g) \<or> callee \<in> definedFlows g \<Longrightarrow>
   generateAsyncCall g (FunctionCall callee args) = generateFunctionCall g callee args"
  by (auto simp: generateAsyncCall_def generateFunctionCall.simps)


lemma present_arguments:
  assumes "set ps \<subseteq> key ` set props"
  shows "map (\<lambda>k. case propertyFor props k of
                    None \<Rightarrow> Inl (MissingParameter k callee)
                  | Some p \<Rightarrow> extractProperty g p) ps =
         map (argumentFor g props) ps"
proof (rule map_cong [OF refl])
  fix k assume "k \<in> set ps"
  with assms have "k \<in> key ` set props" by auto
  then obtain p where "propertyFor props k = Some p" "key p = k"
    using propertyFor_Some by blast
  then show "(case propertyFor props k of
                None \<Rightarrow> Inl (MissingParameter k callee)
              | Some p \<Rightarrow> extractProperty g p) = argumentFor g props k"
    by (auto simp: argumentFor_def extractProperty_val split: option.splits)
qed

text \<open>
  Claim C10. A call whose callee is a prompt import and which has at least one argument
  generates \<^verbatim>\<open>await callee(first)\<close>, where \<^verbatim>\<open>first\<close> is the text of the first argument
  whatever its node type; the remaining arguments are never generated: the result is
  that of the call with the first argument alone, so nothing in them can raise an error.
  The statement-level path \<^verbatim>\<open>generateAsyncCall\<close> does the same.
\<close>

theorem prompt_call_keeps_first_argument:
  assumes "callee \<in> dom (importedPrompts g)"
  shows "generateFunctionCall g callee (a # rest) =
           (case generateNode g a of
              Inl e \<Rightarrow> Inl e
            | Inr s \<Rightarrow> Inr (''await '' @ callee @ ''('' @ s @ '')''))
       \<and> generateFunctionCall g callee (a # rest) = generateFunctionCall g callee [a]
       \<and> generateAsyncCall g (FunctionCall callee (a # rest)) =
           generateFunctionCall g callee (a # rest)"
  using assms by (simp add: generateAsyncCall_def generateFunctionCall.simps)

theorem prompt_call_keeps_first_argument_witness:
  "''P'' \<in> dom (importedPrompts registryPF) \<and>
   generateFunctionCall registryPF ''P''
     [Identifier ''company'', FunctionCall ''F'' [ObjectLiteral []]] =
     Inr ''await P(company)'' \<and>
   generateAsyncCall registryPF
     (FunctionCall ''P'' [Identifier ''company'', FunctionCall ''F'' [ObjectLiteral []]]) =
     Inr ''await P(company)''"
proof -
  have h: "''P'' \<in> dom (importedPrompts registryPF)"
    by (simp add: registryPF_simps)
  show ?thesis
    using h prompt_call_keeps_first_argument [OF h, of "Identifier ''company''"
                "[FunctionCall ''F'' [ObjectLiteral []]]"]
    by (simp add: generateIdentifier_def)
qed

text \<open>
  Claim C5, as amended. Let the callee be a declared flow with registered parameters
  \<open>ps\<close> that is not also the name of a prompt import (a prompt import of the same name is
  matched first), and let the single argument be an object literal with a property for
  every parameter. Then the generated call is \<^verbatim>\<open>await callee(v1, ..., vn)\<close> where \<open>vi\<close>
  is the text of the value of the property named by the \<open>i\<close>-th declared parameter, or
  that name itself when the property has no value; the statement-level path generates
  the same text; and writing the properties (of distinct keys) in another order does not
  change the result.
\<close>

theorem flow_call_positional_arguments:
  assumes "callee \<notin> dom (importedPrompts g)" and "callee \<in> definedFlows g"
    and "flowParameters g callee = Some ps" and "set ps \<subseteq> key ` set props"
  shows "generateFunctionCall g callee [ObjectLiteral props] =
           (case sequence (map (argumentFor g props) ps) of
              Inl e \<Rightarrow> Inl e
            | Inr vs \<Rightarrow> Inr (''await '' @ callee @ ''('' @ join '', '' vs @ '')''))
       \<and> generateAsyncCall g (FunctionCall callee [ObjectLiteral props]) =
           generateFunctionCall g callee [ObjectLiteral props]
       \<and> (\<forall>props'. distinct (map key props) \<and> distinct (map key props') \<and>
                     set props' = set props \<longrightarrow>
             generateFunctionCall g callee [ObjectLiteral props'] =
             generateFunctionCall g callee [ObjectLiteral props])"
proof (intro conjI allI impI)
  show "generateFunctionCall g callee [ObjectLiteral props] =
           (case sequence (map (argumentFor g props) ps) of
              Inl e \<Rightarrow> Inl e
            | Inr vs \<Rightarrow> Inr (''await '' @ callee @ ''('' @ join '', '' vs @ '')''))"
    by (simp only: flow_call_result [OF assms(1-3)] present_arguments [OF assms(4)])
next
  show "generateAsyncCall g (FunctionCall callee [ObjectLiteral props]) =
           generateFunctionCall g callee [ObjectLiteral props]"
    using assms(2) by (simp add: async_call_same)
next
  fix props'
  assume "distinct (map key props) \<and> distinct (map key props') \<and> set props' = set props"
  then have "propertyFor props' = propertyFor props"
    by (intro ext propertyFor_same_set) auto
  then show "generateFunctionCall g callee [ObjectLiteral props'] =
             generateFunctionCall g callee [ObjectLiteral props]"
    using flow_call_result [OF assms(1-3), of props]
          flow_call_result [OF assms(1-3), of props'] by simp
qed

theorem flow_call_positional_arguments_witness:
  "''F'' \<notin> dom (importedPrompts registryPF) \<and> ''F'' \<in> definedFlows registryPF \<and>
   flowParameters registryPF ''F'' = Some [''x'', ''y''] \<and>
   generateFunctionCall registryPF ''F''
     [ObjectLiteral [Property ''y'' (Some (StringLiteral ''q'')) False,
                     Property ''x'' (Some (NumberLiteral (JSNumber ''5''))) False]] =
     Inr (''await F(5, '' @ [CHR 0x22] @ ''q'' @ [CHR 0x22] @ '')'') \<and>
   generateFunctionCall registryPF ''F''
     [ObjectLiteral [Property ''x'' (Some (NumberLiteral (JSNumber ''5''))) False,
                     Property ''y'' None True]] =
     Inr ''await F(5, y)''"
proof -
  have h: "''F'' \<notin> dom (importedPrompts registryPF)" "''F'' \<in> definedFlows registryPF"
    "flowParameters registryPF ''F'' = Some [''x'', ''y'']"
    by (simp_all add: registryPF_simps)
  show ?thesis
    using h
      flow_call_positional_arguments [OF h,
        of "[Property ''y'' (Some (StringLiteral ''q'')) False,
             Property ''x'' (Some (NumberLiteral (JSNumber ''5''))) False]"]
      flow_call_positional_arguments [OF h,
        of "[Property ''x'' (Some (NumberLiteral (JSNumber ''5''))) False,
             Property ''y'' None True]"]
    by (simp add: argumentFor_def propertyFor_def)
qed

text \<open>
  The claim as first stated, for every declared flow, fails when a prompt import has the
  flow's name: the program that declares both \<^verbatim>\<open>import prompt "p.njk" as F ...\<close> and
  \<^verbatim>\<open>flow F(x: number, y: string)\<close> compiles, and the call \<^verbatim>\<open>F({ y: "q", x: 5 })\<close> is
  generated with the object passed through, not with the arguments \<^verbatim>\<open>(5, "q")\<close>.
\<close>

theorem flow_call_positional_arguments_counterexample:
  "''F'' \<in> definedFlows registryFF \<and>
   flowParameters registryFF ''F'' = Some [''x'', ''y''] \<and>
   generateFunctionCall registryFF ''F''
     [ObjectLiteral [Property ''y'' (Some (StringLiteral ''q'')) False,
                     Property ''x'' (Some (NumberLiteral (JSNumber ''5''))) False]] =
     Inr (''await F({ y: '' @ [CHR 0x22] @ ''q'' @ [CHR 0x22] @ '', x: 5 })'') \<and>
   generateFunctionCall registryFF ''F''
     [ObjectLiteral [Property ''y'' (Some (StringLiteral ''q'')) False,
                     Property ''x'' (Some (NumberLiteral (JSNumber ''5''))) False]] \<noteq>
     Inr (''await F(5, '' @ [CHR 0x22] @ ''q'' @ [CHR 0x22] @ '')'')"
  by (simp add: registryFF_simps generateIdentifier_def generateFunctionCall.simps)



text \<open>
  End to end: compiling \<open>programMissing\<close> returns the error and no output.
\<close>

lemma programMissing_fails:
  "generate (Some rt) newCodeGenerator programMissing = Inl (MissingParameter ''y'' ''F'')"
  by (simp add: generate_def programMissing_def collectDefinedFlows_def generateProgram_def
        generateTopLevel_def generateFlowDefinition_def generateExpressionStatement_def
        isAsyncCall_def generateAsyncCall_def callF_x5_def flowF_def newCodeGenerator_def
        Let_def)


section \<open>Properties of statement generation\<close>





lemma map_generateIdentifier [simp]: "map generateIdentifier ids = ids"
  by (induction ids) (simp_all add: generateIdentifier_def)



lemma awaited_await [simp]: "awaited (''await '' @ r)"
  by (simp add: awaited_def)

lemma not_awaited_builtins [simp]: "\<not> awaited (''_builtins.'' @ r)"
  by (simp add: awaited_def)






section \<open>Properties of the destructuring lookahead\<close>









end
